theory Spec2Isabelle
  imports Main "HOL-Library.Sublist"
begin

section \<open>JavaScript values and primitives used by the message module\<close>

text \<open>
  Strings are lists of code units, a \<^typ>\<open>char\<close> standing for one code unit. The
  parser compares code units only with its separators and with the prefix \<open>http\<close>, and
  it lower-cases through the engine's \<open>toLowerCase\<close>, which is a parameter of the model.
  A value that may be \<open>undefined\<close> is an option, \<open>None\<close> being \<open>undefined\<close>.
\<close>

datatype js_error = TypeError | ReferenceError

text \<open>\<open>s.indexOf(pat)\<close>: the position of the first occurrence of \<open>pat\<close>, or \<open>-1\<close>.\<close>

fun indexOf :: "string \<Rightarrow> string \<Rightarrow> int" where
  "indexOf [] pat = (if pat = [] then 0 else - 1)"
| "indexOf (c # cs) pat =
     (if prefix pat (c # cs) then 0
      else (let r = indexOf cs pat in if r < 0 then - 1 else r + 1))"

text \<open>
  \<open>s.substring(a, b)\<close>: both indices are clamped to \<open>0 .. s.length\<close> and swapped
  when \<open>a > b\<close>. \<open>substring_from\<close> is the one-argument form, up to the end.
\<close>

definition substring :: "string \<Rightarrow> int \<Rightarrow> int \<Rightarrow> string" where
  "substring s a b =
     (let n = int (length s);
          a' = max 0 (min a n);
          b' = max 0 (min b n);
          lo = min a' b';
          hi = max a' b'
      in take (nat (hi - lo)) (drop (nat lo) s))"

definition substring_from :: "string \<Rightarrow> int \<Rightarrow> string" where
  "substring_from s a = substring s a (int (length s))"

text \<open>
  \<open>s.split(sep)\<close> for a separator of one code unit: the pieces between the
  separators, in order; the result always has at least one element.
\<close>

fun split :: "string \<Rightarrow> char \<Rightarrow> string list" where
  "split [] sep = [] # []"
| "split (c # cs) sep =
     (if c = sep then [] # split cs sep
      else (case split cs sep of
              [] \<Rightarrow> [c] # []
            | w # ws \<Rightarrow> (c # w) # ws))"

text \<open>\<open>arr.join(sep)\<close> on an array of strings.\<close>

fun join :: "string list \<Rightarrow> string \<Rightarrow> string" where
  "join [] sep = []"
| "join [x] sep = x"
| "join (x # y # xs) sep = x @ sep @ join (y # xs) sep"

text \<open>
  \<open>arr[i]\<close> is \<open>undefined\<close> out of range; \<open>arr.shift()\<close> removes the first element
  and leaves an empty array empty; \<open>arr[0] = v\<close> extends an empty array.
\<close>

definition js_nth :: "'a list \<Rightarrow> nat \<Rightarrow> 'a option" where
  "js_nth xs i = (if i < length xs then Some (xs ! i) else None)"

definition shift :: "'a list \<Rightarrow> 'a list" where
  "shift xs = tl xs"

definition set_first :: "'a list \<Rightarrow> 'a \<Rightarrow> 'a list" where
  "set_first xs v = (case xs of [] \<Rightarrow> [v] | _ # r \<Rightarrow> v # r)"

text \<open>String conversion inside a template literal: \<open>undefined\<close> prints as its name.\<close>

definition to_str :: "string option \<Rightarrow> string" where
  "to_str v = (case v of None \<Rightarrow> ''undefined'' | Some s \<Rightarrow> s)"

text \<open>
  \<open>s.toLowerCase()\<close> belongs to the engine, not to the module: the parser below takes it
  as the parameter \<open>toLowerCase\<close>, an arbitrary function on strings, since on the whole of
  Unicode it may change the length of a string (the capital I with a dot, U+0130, becomes
  two code units). \<open>toLowerCase_latin1\<close> is what the engine computes on strings whose code
  units are all below 256: \<open>A\<close> to \<open>Z\<close> (65 to 90) and the Latin-1 capitals 192 to 222
  except the multiplication sign 215 move up by 32. It serves to evaluate the parser on
  concrete routes of that kind.
\<close>

definition lower_char :: "char \<Rightarrow> char" where
  "lower_char c =
     (let n = (of_char c :: nat)
      in if (65 \<le> n \<and> n \<le> 90) \<or> (192 \<le> n \<and> n \<le> 222 \<and> n \<noteq> 215)
         then char_of (n + 32) else c)"

definition toLowerCase_latin1 :: "string \<Rightarrow> string" where
  "toLowerCase_latin1 s = map lower_char s"

text \<open>Truthiness of a value that is a string or \<open>undefined\<close>.\<close>

definition truthy_str :: "string option \<Rightarrow> bool" where
  "truthy_str v = (case v of None \<Rightarrow> False | Some s \<Rightarrow> s \<noteq> [])"

section \<open>parseRoute\<close>

text \<open>
  The instance prefix (the block on \<open>atPos\<close>): returns \<open>instance\<close>, \<open>subID\<close> and the
  remaining \<open>urlRoute\<close>.
\<close>

definition parseInstance :: "string \<Rightarrow> string option \<times> string option \<times> string" where
  "parseInstance toValue =
     (let urlRoute = toValue;
          atPos = indexOf urlRoute ''@''
      in if atPos > - 1 then
           (let instance = substring urlRoute 0 atPos;
                urlRoute = substring_from urlRoute (atPos + 1);
                segments = split instance CHR ''-''
            in if length segments > 0
               then (js_nth segments 0, js_nth segments 1, urlRoute)
               else (Some instance, Some [], urlRoute))
         else (Some [], Some [], urlRoute))"

text \<open>
  Service name and path from the colon-separated segments (the \<open>else\<close> branch up to
  \<open>segments.join(':')\<close>). Calling \<open>indexOf\<close> on an \<open>undefined\<close> first segment
  would raise a TypeError.
\<close>

definition parseService :: "string list \<Rightarrow> js_error + (string option \<times> string)" where
  "parseService segments =
     (case js_nth segments 0 of
        None \<Rightarrow> Inl TypeError
      | Some s0 \<Rightarrow>
          (let segments =
                 (if indexOf s0 ''http'' = 0
                  then (let url = to_str (js_nth segments 0) @ '':'' @ to_str (js_nth segments 1)
                        in set_first (shift segments) url)
                  else segments);
               serviceName = js_nth segments 0;
               segments = shift segments;
               apiRoute = join segments '':''
           in Inr (serviceName, apiRoute)))"

text \<open>
  The HTTP method annotation (the block on \<open>s1\<close>): returns \<open>httpMethod\<close>, the new
  \<open>apiRoute\<close> and \<open>error\<close>. Reading \<open>length\<close> of an \<open>undefined\<close> \<open>httpMethod\<close>
  would raise a TypeError. The number of code units stripped is the length of the
  lower-cased method plus two, as in the code.
\<close>

definition parseMethod ::
  "(string \<Rightarrow> string) \<Rightarrow> string \<Rightarrow> js_error + (string option \<times> string \<times> string option)" where
  "parseMethod toLowerCase apiRoute =
     (let s1 = indexOf apiRoute ''[''
      in if s1 = 0 then
           (let s2 = indexOf apiRoute '']'';
                error = (if s2 < 0
                         then Some ''route field has ill-formed HTTP method verb in segment''
                         else None);
                httpMethod = (if s2 < 0 then None
                              else Some (toLowerCase (substring apiRoute (s1 + 1) s2)))
            in if \<not> truthy_str error then
                 (case httpMethod of
                    None \<Rightarrow> Inl TypeError
                  | Some h \<Rightarrow>
                      (let s3 = int (length h)
                       in if s3 > 0
                          then Inr (httpMethod,
                                    substring apiRoute (s3 + 2) (int (length apiRoute)), error)
                          else Inr (httpMethod, apiRoute, error)))
               else Inr (httpMethod, apiRoute, error))
         else Inr (None, apiRoute, None))"

text \<open>
  The object returned by \<open>parseRoute\<close>. \<open>subID\<close>, \<open>httpMethod\<close> and \<open>error\<close> may be
  \<open>undefined\<close>; \<open>instance\<close> and \<open>serviceName\<close> are read from an array index.
\<close>

record RouteResult =
  "instance" :: "string option"
  subID :: "string option"
  serviceName :: "string option"
  httpMethod :: "string option"
  apiRoute :: string
  error :: "string option"

text \<open>
  The rest of \<open>parseRoute\<close> after the instance prefix, from the locals \<open>instance\<close>,
  \<open>subID\<close> and \<open>urlRoute\<close>: the split on the colon, the two blocks above and the
  returned object. The primed names are the local variables the object is built from.
\<close>

definition parseSegments ::
  "(string \<Rightarrow> string) \<Rightarrow> string option \<Rightarrow> string option \<Rightarrow> string \<Rightarrow> js_error + RouteResult" where
  "parseSegments toLowerCase instance' subID' urlRoute =
     (let segments = split urlRoute CHR '':''
      in if length segments < 1 then
           Inr \<lparr>instance = instance', subID = subID', serviceName = Some [],
                httpMethod = None, apiRoute = [],
                error = Some ''route field has invalid number of routable segments''\<rparr>
         else
           (case parseService segments of
              Inl e \<Rightarrow> Inl e
            | Inr (serviceName', apiRoute') \<Rightarrow>
                (case parseMethod toLowerCase apiRoute' of
                   Inl e \<Rightarrow> Inl e
                 | Inr (httpMethod', apiRoute'', error') \<Rightarrow>
                     Inr \<lparr>instance = instance', subID = subID',
                          serviceName = serviceName', httpMethod = httpMethod',
                          apiRoute = apiRoute'', error = error'\<rparr>)))"

definition parseRoute :: "(string \<Rightarrow> string) \<Rightarrow> string \<Rightarrow> js_error + RouteResult" where
  "parseRoute toLowerCase toValue =
     (case parseInstance toValue of
        (instance', subID', urlRoute) \<Rightarrow> parseSegments toLowerCase instance' subID' urlRoute)"

section \<open>Messages\<close>

text \<open>
  Field values. Numbers are modelled by the integers and \<open>NaN\<close>, which is all their
  truthiness depends on; an object value is a reference. Own properties of an object are
  a map from names to values; members inherited from the object prototype are not
  modelled.
\<close>

datatype val = Undefined | Null | Boolean bool | Number int | NaN | Str string | Ref nat

fun truthy :: "val \<Rightarrow> bool" where
  "truthy Undefined = False"
| "truthy Null = False"
| "truthy (Boolean b) = b"
| "truthy (Number n) = (n \<noteq> 0)"
| "truthy NaN = False"
| "truthy (Str s) = (s \<noteq> [])"
| "truthy (Ref a) = True"

type_synonym obj = "string \<rightharpoonup> val"

text \<open>\<open>obj[name]\<close>: a missing property reads as \<open>undefined\<close>.\<close>

definition obj_get :: "obj \<Rightarrow> string \<Rightarrow> val" where
  "obj_get obj name = (case obj name of None \<Rightarrow> Undefined | Some v \<Rightarrow> v)"

text \<open>
  \<open>name in table\<close> on the two constant tables, for the names of own properties. The
  operator also finds the members a table inherits from the object prototype
  (\<open>constructor\<close>, \<open>toString\<close> and the like); such names are outside the model, as they
  are for \<open>obj_get\<close>.
\<close>

definition js_in :: "string \<Rightarrow> (string \<rightharpoonup> string) \<Rightarrow> bool" where
  "js_in name table = (table name \<noteq> None)"

definition UMF_VERSION :: string where
  "UMF_VERSION = ''UMF/1.4.3''"

definition shortToLong :: "string \<rightharpoonup> string" where
  "shortToLong =
     [''frm'' \<mapsto> ''from'', ''ts'' \<mapsto> ''timestamp'', ''ver'' \<mapsto> ''version'', ''bdy'' \<mapsto> ''body'']"

definition longToShort :: "string \<rightharpoonup> string" where
  "longToShort =
     [''from'' \<mapsto> ''frm'', ''timestamp'' \<mapsto> ''ts'', ''version'' \<mapsto> ''ver'', ''body'' \<mapsto> ''bdy'']"

text \<open>
  The external generators \<open>uuid.v4()\<close>, \<open>Utils.shortID()\<close> and
  \<open>moment().toISOString()\<close>: the strings they return in one call of \<open>createMessage\<close>.
\<close>

record generators =
  createMessageID :: string
  createShortMessageID :: string
  getTimeStamp :: string

text \<open>\<open>Object.assign(target, source)\<close> on own properties: the source wins.\<close>

definition object_assign :: "obj \<Rightarrow> obj \<Rightarrow> obj" where
  "object_assign target source = target ++ source"

text \<open>
  A message is a plain object or the proxy that \<open>createMessage\<close> returns, which holds
  the \<open>shortFormat\<close> flag of its handlers and the target object.
\<close>

datatype message = Plain obj | Proxied bool obj

text \<open>\<open>message || {}\<close>: an omitted overrides argument counts as the empty object.\<close>

definition or_empty :: "obj option \<Rightarrow> obj" where
  "or_empty message = (case message of None \<Rightarrow> Map.empty | Some m \<Rightarrow> m)"

definition createMessage :: "generators \<Rightarrow> obj option \<Rightarrow> bool \<Rightarrow> message" where
  "createMessage g message shortFormat =
     (let msg =
            (if shortFormat = False then
               object_assign
                 [''mid'' \<mapsto> Str (createMessageID g),
                  ''timestamp'' \<mapsto> Str (getTimeStamp g),
                  ''version'' \<mapsto> Str UMF_VERSION]
                 (or_empty message)
             else
               object_assign
                 [''mid'' \<mapsto> Str (createShortMessageID g),
                  ''ts'' \<mapsto> Str (getTimeStamp g),
                  ''ver'' \<mapsto> Str UMF_VERSION]
                 (or_empty message))
      in Proxied shortFormat msg)"

text \<open>The \<open>get\<close> handler of the proxy.\<close>

definition proxy_get :: "bool \<Rightarrow> obj \<Rightarrow> string \<Rightarrow> val" where
  "proxy_get shortFormat obj name =
     (if shortFormat \<and> js_in name longToShort then
        obj_get obj (to_str (longToShort name))
      else if \<not> shortFormat \<and> js_in name shortToLong then
        obj_get obj (to_str (shortToLong name))
      else
        obj_get obj name)"

text \<open>
  The \<open>set\<close> handler of the proxy. Its parameters are \<open>obj\<close>, \<open>prop\<close> and \<open>value\<close>,
  and its body tests and writes the identifier \<open>name\<close>, which is none of them and is
  not declared in the module. \<open>global_name\<close> is what that identifier resolves to:
  \<open>None\<close> when there is no such global, as under Node.js, where evaluating it raises
  a ReferenceError. One of the two tests always evaluates it. When the identifier does
  resolve, the result is the target object as the handler leaves it; the handler returns
  no value, so the assignment that called it then raises a TypeError if it stands in
  strict-mode code. That last step belongs to the assigning code and is not modelled.
\<close>

definition proxy_set :: "string option \<Rightarrow> bool \<Rightarrow> obj \<Rightarrow> string \<Rightarrow> val \<Rightarrow> js_error + obj" where
  "proxy_set global_name shortFormat obj prop value =
     (case global_name of
        None \<Rightarrow> Inl ReferenceError
      | Some name \<Rightarrow>
          (if shortFormat \<and> js_in name longToShort then
             Inr (obj(to_str (longToShort prop) \<mapsto> value))
           else if \<not> shortFormat \<and> js_in name shortToLong then
             Inr (obj(to_str (shortToLong prop) \<mapsto> value))
           else
             Inr (obj(name \<mapsto> value))))"

text \<open>
  Reading a property of a message, and the run of a write on it, through the handlers of
  the proxy when there is one.
\<close>

fun msg_get :: "message \<Rightarrow> string \<Rightarrow> val" where
  "msg_get (Plain obj) name = obj_get obj name"
| "msg_get (Proxied shortFormat obj) name = proxy_get shortFormat obj name"

fun msg_set :: "string option \<Rightarrow> message \<Rightarrow> string \<Rightarrow> val \<Rightarrow> js_error + message" where
  "msg_set global_name (Plain obj) prop value = Inr (Plain (obj(prop \<mapsto> value)))"
| "msg_set global_name (Proxied shortFormat obj) prop value =
     (case proxy_set global_name shortFormat obj prop value of
        Inl e \<Rightarrow> Inl e
      | Inr obj' \<Rightarrow> Inr (Proxied shortFormat obj'))"

fun target :: "message \<Rightarrow> obj" where
  "target (Plain obj) = obj"
| "target (Proxied shortFormat obj) = obj"

text \<open>
  One line of the converters, \<open>(message.src) && (convertedMessage.dst = message.src)\<close>:
  the field is copied when its value is truthy.
\<close>

definition copy_field :: "message \<Rightarrow> string \<Rightarrow> string \<Rightarrow> obj \<Rightarrow> obj" where
  "copy_field message src dst convertedMessage =
     (if truthy (msg_get message src)
      then convertedMessage(dst \<mapsto> msg_get message src)
      else convertedMessage)"

definition messageToShort :: "message \<Rightarrow> obj" where
  "messageToShort message =
     (let convertedMessage = Map.empty;
          convertedMessage = copy_field message ''to'' ''to'' convertedMessage;
          convertedMessage = copy_field message ''from'' ''frm'' convertedMessage;
          convertedMessage = copy_field message ''mid'' ''mid'' convertedMessage;
          convertedMessage = copy_field message ''rmid'' ''rmid'' convertedMessage;
          convertedMessage = copy_field message ''timestamp'' ''ts'' convertedMessage;
          convertedMessage = copy_field message ''version'' ''ver'' convertedMessage;
          convertedMessage = copy_field message ''via'' ''via'' convertedMessage;
          convertedMessage = copy_field message ''for'' ''for'' convertedMessage;
          convertedMessage = copy_field message ''body'' ''bdy'' convertedMessage
      in convertedMessage)"

definition messageToLong :: "message \<Rightarrow> obj" where
  "messageToLong message =
     (let convertedMessage = Map.empty;
          convertedMessage = copy_field message ''to'' ''to'' convertedMessage;
          convertedMessage = copy_field message ''frm'' ''from'' convertedMessage;
          convertedMessage = copy_field message ''mid'' ''mid'' convertedMessage;
          convertedMessage = copy_field message ''rmid'' ''rmid'' convertedMessage;
          convertedMessage = copy_field message ''ts'' ''timestamp'' convertedMessage;
          convertedMessage = copy_field message ''ver'' ''version'' convertedMessage;
          convertedMessage = copy_field message ''via'' ''via'' convertedMessage;
          convertedMessage = copy_field message ''for'' ''for'' convertedMessage;
          convertedMessage = copy_field message ''bdy'' ''body'' convertedMessage
      in convertedMessage)"

definition validateMessage :: "message \<Rightarrow> bool" where
  "validateMessage message =
     (if (\<not> truthy (msg_get message ''from'') \<and> \<not> truthy (msg_get message ''frm''))
         \<or> \<not> truthy (msg_get message ''to'')
         \<or> (\<not> truthy (msg_get message ''body'') \<and> \<not> truthy (msg_get message ''bdy''))
      then False
      else True)"

section \<open>Facts about the string primitives\<close>

lemma indexOf_char:
  "indexOf s [c] = (if c \<in> set s then int (length (takeWhile (\<lambda>x. x \<noteq> c) s)) else - 1)"
  by (induction s) (auto simp: Let_def)

lemma indexOf_zero_iff: "indexOf s pat = 0 \<longleftrightarrow> prefix pat s"
proof (cases s)
  case Nil
  then show ?thesis by simp
next
  case (Cons c cs)
  have "indexOf cs pat \<ge> - 1" for cs
    by (induction cs) (auto simp: Let_def)
  then show ?thesis using Cons by (auto simp: Let_def)
qed

lemma split_not_Nil: "split s sep \<noteq> []"
  by (induction s) (auto split: list.splits)

lemma split_append_sep:
  "sep \<notin> set a \<Longrightarrow> split (a @ sep # b) sep = a # split b sep"
  by (induction a) (auto split: list.splits)

lemma length_toLowerCase_latin1: "length (toLowerCase_latin1 s) = length s"
  by (simp add: toLowerCase_latin1_def)

lemma substring_prefix: "substring (pre @ rest) 0 (int (length pre)) = pre"
  by (simp add: substring_def Let_def)

lemma substring_from_suffix:
  "substring_from (pre @ c # rest) (int (length pre) + 1) = rest"
  by (simp add: substring_from_def substring_def Let_def nat_add_distrib)

lemma substring_between:
  "substring (c # m @ d # rest) 1 (int (length m) + 1) = m"
  by (simp add: substring_def Let_def)

lemma substring_after:
  "n = int (length m) + 2 \<Longrightarrow> int (length (c # m @ d # rest)) \<le> e \<Longrightarrow>
   substring (c # m @ d # rest) n e = rest"
proof -
  assume n: "n = int (length m) + 2" and e: "int (length (c # m @ d # rest)) \<le> e"
  have "nat (int (length m) + 2) = Suc (Suc (length m))" by simp
  then show ?thesis using e unfolding n by (simp add: substring_def Let_def)
qed

lemma substring_same: "substring s a a = []"
  by (simp add: substring_def Let_def)

lemma takeWhile_pre: "c \<notin> set pre \<Longrightarrow> takeWhile (\<lambda>x. x \<noteq> c) (pre @ c # rest) = pre"
  by (induction pre) auto

lemma dropWhile_pre: "c \<notin> set pre \<Longrightarrow> dropWhile (\<lambda>x. x \<noteq> c) (pre @ c # rest) = c # rest"
  by (induction pre) auto

section \<open>The blocks of parseRoute\<close>

lemma js_nth_split_0: "js_nth (split pre sep) 0 = Some (hd (split pre sep))"
  using split_not_Nil[of pre sep] by (cases "split pre sep") (simp_all add: js_nth_def)

lemma parseInstance_at:
  assumes "CHR ''@'' \<notin> set pre"
  shows "parseInstance (pre @ CHR ''@'' # rest) =
           (js_nth (split pre CHR ''-'') 0, js_nth (split pre CHR ''-'') 1, rest)"
  using assms split_not_Nil[of pre "CHR ''-''"]
  by (simp add: parseInstance_def indexOf_char takeWhile_pre Let_def substring_prefix
        substring_from_suffix)

lemma parseInstance_no_at:
  assumes "CHR ''@'' \<notin> set s"
  shows "parseInstance s = (Some [], Some [], s)"
  using assms by (simp add: parseInstance_def indexOf_char Let_def)

text \<open>Neither of the two places that could raise a TypeError is ever reached with \<open>undefined\<close>.\<close>

lemma parseService_ok:
  "segments \<noteq> [] \<Longrightarrow> \<exists>svc api. parseService segments = Inr (svc, api)"
  by (cases segments) (simp_all add: parseService_def js_nth_def Let_def)

lemma parseMethod_ok: "\<exists>h a e. parseMethod toLowerCase api = Inr (h, a, e)"
  by (simp add: parseMethod_def Let_def truthy_str_def)

lemma parseSegments_ok: "\<exists>r. parseSegments toLowerCase i sub url = Inr r"
proof -
  obtain svc api where 1: "parseService (split url CHR '':'') = Inr (svc, api)"
    using parseService_ok[OF split_not_Nil] by blast
  obtain h a e where 2: "parseMethod toLowerCase api = Inr (h, a, e)"
    using parseMethod_ok by blast
  show ?thesis by (simp add: parseSegments_def 1 2 Let_def split_not_Nil)
qed

lemma parseSegments_fields:
  "parseSegments toLowerCase i sub url = Inr r \<Longrightarrow> instance r = i \<and> subID r = sub"
  by (auto simp: parseSegments_def Let_def split: if_splits sum.splits prod.splits)

lemma parseSegments_unfold:
  assumes "parseService (split url CHR '':'') = Inr (svc, api)"
    and "parseMethod toLowerCase api = Inr (h, a, e)"
  shows "parseSegments toLowerCase i sub url =
           Inr \<lparr>instance = i, subID = sub, serviceName = svc, httpMethod = h,
                apiRoute = a, error = e\<rparr>"
  using assms split_not_Nil[of url "CHR '':''"] by (simp add: parseSegments_def Let_def)

text \<open>
  The method block on a path that opens with a bracket. With a closing bracket the method
  is the lower-cased text \<open>m\<close> before it, and what is cut from the path is as long as the
  lower-cased method plus two, whatever the length of \<open>m\<close> itself.
\<close>

lemma parseMethod_closed:
  assumes "CHR '']'' \<notin> set m"
  shows "parseMethod toLowerCase (CHR ''['' # m @ CHR '']'' # rest) =
           Inr (Some (toLowerCase m),
                (if toLowerCase m \<noteq> []
                 then substring (CHR ''['' # m @ CHR '']'' # rest) (int (length (toLowerCase m)) + 2)
                        (int (length (CHR ''['' # m @ CHR '']'' # rest)))
                 else CHR ''['' # m @ CHR '']'' # rest),
                None)"
proof -
  let ?api = "CHR ''['' # m @ CHR '']'' # rest"
  have s1: "indexOf ?api ''['' = 0" by simp
  have s2: "indexOf ?api '']'' = int (length m) + 1"
    using assms by (simp add: indexOf_char takeWhile_pre)
  show ?thesis
    by (simp add: parseMethod_def Let_def s1 s2 truthy_str_def substring_between
          del: indexOf.simps)
qed

lemma parseMethod_closed_same_length:
  assumes "CHR '']'' \<notin> set m" and "length (toLowerCase m) = length m"
  shows "parseMethod toLowerCase (CHR ''['' # m @ CHR '']'' # rest) =
           Inr (Some (toLowerCase m),
                (if m \<noteq> [] then rest else CHR ''['' # m @ CHR '']'' # rest), None)"
proof -
  have e: "toLowerCase m = [] \<longleftrightarrow> m = []"
    using assms(2) by (metis length_0_conv)
  have "substring (CHR ''['' # m @ CHR '']'' # rest) (int (length (toLowerCase m)) + 2)
          (int (length (CHR ''['' # m @ CHR '']'' # rest))) = rest"
    by (rule substring_after) (simp_all add: assms(2))
  then show ?thesis
    unfolding parseMethod_closed[OF assms(1)] e by simp
qed

lemma parseMethod_open:
  assumes "CHR '']'' \<notin> set body"
  shows "parseMethod toLowerCase (CHR ''['' # body) =
           Inr (None, CHR ''['' # body,
                Some ''route field has ill-formed HTTP method verb in segment'')"
  using assms by (simp add: parseMethod_def indexOf_char Let_def truthy_str_def)

lemma parseMethod_no_bracket:
  "\<not> prefix ''['' api \<Longrightarrow> parseMethod toLowerCase api = Inr (None, api, None)"
  by (simp add: parseMethod_def Let_def indexOf_zero_iff)

section \<open>Properties of parseRoute\<close>

text \<open>
  C1. The route of the README and of the test suite,
  \<open>fa1ae8d5-86fc-44af-aad8-cd2740aef041@test-service:[GET]/v1/somedata\<close>. The service
  name, the method and the path come out as the tests expect, but the instance segment is
  split on the dash: \<open>instance\<close> is only \<open>fa1ae8d5\<close> and \<open>subID\<close> is \<open>86fc\<close>, where the test
  expects \<open>instance\<close> to be the whole identifier.
\<close>

theorem parseRoute_readme_route:
  "parseRoute toLowerCase_latin1 ''fa1ae8d5-86fc-44af-aad8-cd2740aef041@test-service:[GET]/v1/somedata'' =
     Inr \<lparr>instance = Some ''fa1ae8d5'', subID = Some ''86fc'',
          serviceName = Some ''test-service'', httpMethod = Some ''get'',
          apiRoute = ''/v1/somedata'', error = None\<rparr>"
  by code_simp

text \<open>
  C5. When the route contains an at sign, the text \<open>pre\<close> before the first one is split on
  the dash: \<open>instance\<close> is the first piece, \<open>subID\<close> is the second piece when there is one
  (and \<open>undefined\<close> otherwise), and the text after the at sign is what the segment parsing
  works on. Pieces after the second are dropped: with pieces \<open>t1\<close>, \<open>t2\<close> and anything
  \<open>extra\<close> behind a further dash, the result has \<open>t1\<close> and \<open>t2\<close> only. When the route has
  no at sign, \<open>instance\<close> and \<open>subID\<close> are empty strings and the whole input goes to the
  segment parsing. The lower-casing function plays no part in this.
\<close>

theorem parseRoute_instance_prefix:
  "(CHR ''@'' \<notin> set pre \<longrightarrow>
      (\<exists>r. parseRoute toLowerCase (pre @ CHR ''@'' # rest) = Inr r
         \<and> instance r = Some (hd (split pre CHR ''-''))
         \<and> subID r = (if 1 < length (split pre CHR ''-'')
                       then Some (split pre CHR ''-'' ! 1) else None)
         \<and> parseSegments toLowerCase (instance r) (subID r) rest = Inr r))
   \<and> (CHR ''@'' \<notin> set (t1 @ t2 @ extra) \<longrightarrow> CHR ''-'' \<notin> set (t1 @ t2) \<longrightarrow>
      (\<exists>r. parseRoute toLowerCase (t1 @ CHR ''-'' # t2 @ CHR ''-'' # extra @ CHR ''@'' # rest) = Inr r
         \<and> instance r = Some t1 \<and> subID r = Some t2
         \<and> parseSegments toLowerCase (instance r) (subID r) rest = Inr r))
   \<and> (CHR ''@'' \<notin> set s \<longrightarrow>
      (\<exists>r. parseRoute toLowerCase s = Inr r
         \<and> instance r = Some [] \<and> subID r = Some []
         \<and> parseSegments toLowerCase (instance r) (subID r) s = Inr r))"
proof (intro conjI impI)
  assume pre: "CHR ''@'' \<notin> set pre"
  let ?toks = "split pre CHR ''-''"
  let ?sub = "if 1 < length ?toks then Some (?toks ! 1) else None"
  have pr: "parseRoute toLowerCase (pre @ CHR ''@'' # rest) = parseSegments toLowerCase (Some (hd ?toks)) ?sub rest"
    by (simp add: parseRoute_def parseInstance_at[OF pre] js_nth_split_0) (simp add: js_nth_def)
  obtain r where r: "parseSegments toLowerCase (Some (hd ?toks)) ?sub rest = Inr r"
    using parseSegments_ok by blast
  from parseSegments_fields[OF r] r pr
  show "\<exists>r. parseRoute toLowerCase (pre @ CHR ''@'' # rest) = Inr r
         \<and> instance r = Some (hd ?toks) \<and> subID r = ?sub
         \<and> parseSegments toLowerCase (instance r) (subID r) rest = Inr r"
    by simp
next
  assume at: "CHR ''@'' \<notin> set (t1 @ t2 @ extra)" and dash: "CHR ''-'' \<notin> set (t1 @ t2)"
  let ?pre = "t1 @ CHR ''-'' # t2 @ CHR ''-'' # extra"
  have pre: "CHR ''@'' \<notin> set ?pre" using at by simp
  have toks: "split ?pre CHR ''-'' = t1 # t2 # split extra CHR ''-''"
    using dash by (simp add: split_append_sep)
  have "parseInstance (?pre @ CHR ''@'' # rest) = (Some t1, Some t2, rest)"
    unfolding parseInstance_at[OF pre] toks by (simp add: js_nth_def)
  then have pr: "parseRoute toLowerCase (t1 @ CHR ''-'' # t2 @ CHR ''-'' # extra @ CHR ''@'' # rest)
                   = parseSegments toLowerCase (Some t1) (Some t2) rest"
    by (simp add: parseRoute_def)
  obtain r where r: "parseSegments toLowerCase (Some t1) (Some t2) rest = Inr r"
    using parseSegments_ok by blast
  from parseSegments_fields[OF r] r pr
  show "\<exists>r. parseRoute toLowerCase (t1 @ CHR ''-'' # t2 @ CHR ''-'' # extra @ CHR ''@'' # rest) = Inr r
         \<and> instance r = Some t1 \<and> subID r = Some t2
         \<and> parseSegments toLowerCase (instance r) (subID r) rest = Inr r"
    by simp
next
  assume s: "CHR ''@'' \<notin> set s"
  have pr: "parseRoute toLowerCase s = parseSegments toLowerCase (Some []) (Some []) s"
    by (simp add: parseRoute_def parseInstance_no_at[OF s])
  obtain r where r: "parseSegments toLowerCase (Some []) (Some []) s = Inr r"
    using parseSegments_ok by blast
  from parseSegments_fields[OF r] r pr
  show "\<exists>r. parseRoute toLowerCase s = Inr r \<and> instance r = Some [] \<and> subID r = Some []
         \<and> parseSegments toLowerCase (instance r) (subID r) s = Inr r"
    by simp
qed

theorem parseRoute_instance_prefix_witness:
  "CHR ''@'' \<notin> set ''a-b-c''
   \<and> CHR ''@'' \<notin> set (''a'' @ ''b'' @ ''c'') \<and> CHR ''-'' \<notin> set (''a'' @ ''b'')
   \<and> CHR ''@'' \<notin> set ''client:/''
   \<and> (\<exists>r. parseRoute toLowerCase_latin1 ''a-b-c@svc:/x'' = Inr r
          \<and> instance r = Some ''a'' \<and> subID r = Some ''b'')
   \<and> (\<exists>r. parseRoute toLowerCase_latin1 ''client:/'' = Inr r
          \<and> instance r = Some [] \<and> subID r = Some [])"
proof -
  have t: "split ''a-b-c'' CHR ''-'' = [''a'', ''b'', ''c'']" by code_simp
  show ?thesis
    using parseRoute_instance_prefix[of "''a-b-c''" toLowerCase_latin1 "''svc:/x''" "''a''" "''b''"
        "''c''" "''client:/''"]
    by (simp add: t) blast
qed

text \<open>
  C6, as stated, fails where the brackets are empty: for \<open>svc:[]/x\<close> the path after the
  service name is \<open>[]/x\<close>, the method is the empty string, and the brackets stay in
  \<open>apiRoute\<close>, since the code strips only when the method has length above zero.
\<close>

theorem parseRoute_empty_method_counterexample:
  "parseService (split ''svc:[]/x'' CHR '':'') = Inr (Some ''svc'', ''[]/x'')
   \<and> parseRoute toLowerCase_latin1 ''svc:[]/x'' =
       Inr \<lparr>instance = Some [], subID = Some [], serviceName = Some ''svc'',
            httpMethod = Some [], apiRoute = ''[]/x'', error = None\<rparr>
   \<and> parseRoute toLowerCase_latin1 ''svc:[]/x'' \<noteq>
       Inr \<lparr>instance = Some [], subID = Some [], serviceName = Some ''svc'',
            httpMethod = Some [], apiRoute = ''/x'', error = None\<rparr>"
proof -
  have a: "parseService (split ''svc:[]/x'' CHR '':'') = Inr (Some ''svc'', ''[]/x'')"
    by code_simp
  have b: "parseRoute toLowerCase_latin1 ''svc:[]/x'' =
       Inr \<lparr>instance = Some [], subID = Some [], serviceName = Some ''svc'',
            httpMethod = Some [], apiRoute = ''[]/x'', error = None\<rparr>"
    by code_simp
  show ?thesis unfolding a b by simp
qed

text \<open>
  C6, amended. Let the path after the service name be an opening bracket followed by
  \<open>body\<close>, for any lower-casing function. If \<open>body\<close> has no closing bracket, \<open>error\<close> is
  the ill-formed-verb message, \<open>httpMethod\<close> stays \<open>undefined\<close> and \<open>apiRoute\<close> is
  unchanged. Otherwise there is no error and \<open>httpMethod\<close> is the text before the first
  closing bracket, lower-cased; and when lower-casing keeps the length of that text, the
  two brackets and the method are stripped from \<open>apiRoute\<close> if the text is not empty, and
  \<open>apiRoute\<close> is unchanged if it is empty. Nothing is said of \<open>apiRoute\<close> when
  lower-casing changes the length of the method text.
\<close>

theorem parseRoute_http_method:
  assumes "parseInstance toValue = (i, sub, url)"
    and "parseService (split url CHR '':'') = Inr (svc, CHR ''['' # body)"
  shows "\<exists>r. parseRoute toLowerCase toValue = Inr r
           \<and> instance r = i \<and> subID r = sub \<and> serviceName r = svc
           \<and> httpMethod r =
                (if CHR '']'' \<in> set body
                 then Some (toLowerCase (takeWhile (\<lambda>c. c \<noteq> CHR '']'') body))
                 else None)
           \<and> error r =
                (if CHR '']'' \<in> set body then None
                 else Some ''route field has ill-formed HTTP method verb in segment'')
           \<and> (CHR '']'' \<notin> set body \<longrightarrow> apiRoute r = CHR ''['' # body)
           \<and> (CHR '']'' \<in> set body \<longrightarrow>
                length (toLowerCase (takeWhile (\<lambda>c. c \<noteq> CHR '']'') body))
                  = length (takeWhile (\<lambda>c. c \<noteq> CHR '']'') body) \<longrightarrow>
                apiRoute r =
                  (if takeWhile (\<lambda>c. c \<noteq> CHR '']'') body \<noteq> []
                   then tl (dropWhile (\<lambda>c. c \<noteq> CHR '']'') body)
                   else CHR ''['' # body))"
proof (cases "CHR '']'' \<in> set body")
  case False
  have pm: "parseMethod toLowerCase (CHR ''['' # body) =
              Inr (None, CHR ''['' # body,
                   Some ''route field has ill-formed HTTP method verb in segment'')"
    using False by (rule parseMethod_open)
  show ?thesis
    using False assms(1) parseSegments_unfold[OF assms(2) pm, of i sub]
    by (simp add: parseRoute_def)
next
  case True
  then obtain m rest where body: "body = m @ CHR '']'' # rest" and m: "CHR '']'' \<notin> set m"
    by (auto dest: split_list_first)
  have tw: "takeWhile (\<lambda>c. c \<noteq> CHR '']'') body = m"
    unfolding body using m by (rule takeWhile_pre)
  have dw: "dropWhile (\<lambda>c. c \<noteq> CHR '']'') body = CHR '']'' # rest"
    unfolding body using m by (rule dropWhile_pre)
  obtain a where pm: "parseMethod toLowerCase (CHR ''['' # body) = Inr (Some (toLowerCase m), a, None)"
    and same: "length (toLowerCase m) = length m \<Longrightarrow>
                 a = (if m \<noteq> [] then rest else CHR ''['' # body)"
    unfolding body
    using parseMethod_closed[OF m, of toLowerCase rest]
      parseMethod_closed_same_length[OF m, of toLowerCase rest]
    by auto
  show ?thesis
    using True assms(1) parseSegments_unfold[OF assms(2) pm, of i sub] same
    by (simp add: parseRoute_def tw dw)
qed

theorem parseRoute_http_method_witness:
  "parseInstance ''a@svc:[GET]/x'' = (Some ''a'', None, ''svc:[GET]/x'')
   \<and> parseService (split ''svc:[GET]/x'' CHR '':'') = Inr (Some ''svc'', CHR ''['' # ''GET]/x'')
   \<and> CHR '']'' \<in> set ''GET]/x''
   \<and> length (toLowerCase_latin1 (takeWhile (\<lambda>c. c \<noteq> CHR '']'') ''GET]/x''))
        = length (takeWhile (\<lambda>c. c \<noteq> CHR '']'') ''GET]/x'')
   \<and> (\<exists>r. parseRoute toLowerCase_latin1 ''a@svc:[GET]/x'' = Inr r
          \<and> httpMethod r = Some ''get'' \<and> apiRoute r = ''/x'' \<and> error r = None)
   \<and> parseInstance ''svc:[GET'' = (Some [], Some [], ''svc:[GET'')
   \<and> parseService (split ''svc:[GET'' CHR '':'') = Inr (Some ''svc'', CHR ''['' # ''GET'')
   \<and> CHR '']'' \<notin> set ''GET''
   \<and> (\<exists>r. parseRoute toLowerCase_latin1 ''svc:[GET'' = Inr r
          \<and> httpMethod r = None \<and> apiRoute r = ''[GET''
          \<and> error r = Some ''route field has ill-formed HTTP method verb in segment'')"
proof -
  have a: "parseInstance ''a@svc:[GET]/x'' = (Some ''a'', None, ''svc:[GET]/x'')"
    by code_simp
  have b: "parseService (split ''svc:[GET]/x'' CHR '':'')
             = Inr (Some ''svc'', CHR ''['' # ''GET]/x'')"
    by code_simp
  have c: "toLowerCase_latin1 ''GET'' = ''get''" by code_simp
  have a': "parseInstance ''svc:[GET'' = (Some [], Some [], ''svc:[GET'')"
    by code_simp
  have b': "parseService (split ''svc:[GET'' CHR '':'') = Inr (Some ''svc'', CHR ''['' # ''GET'')"
    by code_simp
  show ?thesis
    using a b a' b'
      parseRoute_http_method[OF a b, of toLowerCase_latin1]
      parseRoute_http_method[OF a' b', of toLowerCase_latin1]
    by (simp add: c) blast
qed

text \<open>
  C7. \<open>parseRoute\<close> returns a result object for every input string, whatever the
  lower-casing function: neither TypeError branch of the model is taken, so a failed
  parse shows only in the \<open>error\<close> field.
\<close>

theorem parseRoute_never_throws: "\<exists>r. parseRoute toLowerCase toValue = Inr r"
  by (cases "parseInstance toValue") (simp add: parseRoute_def parseSegments_ok)

theorem parseRoute_never_throws_witness:
  "\<exists>r. parseRoute toLowerCase_latin1 ''service:[GET'' = Inr r
      \<and> error r = Some ''route field has ill-formed HTTP method verb in segment''"
proof -
  have e: "parseRoute toLowerCase_latin1 ''service:[GET'' =
             Inr \<lparr>instance = Some [], subID = Some [], serviceName = Some ''service'',
                  httpMethod = None, apiRoute = ''[GET'',
                  error = Some ''route field has ill-formed HTTP method verb in segment''\<rparr>"
    by code_simp
  show ?thesis
    using parseRoute_never_throws[of toLowerCase_latin1 "''service:[GET''"] unfolding e by simp
qed

text \<open>
  C9. When the path after the service name does not open with a bracket, \<open>httpMethod\<close>
  is \<open>undefined\<close>, \<open>apiRoute\<close> is that path unchanged and there is no error. An empty
  route remainder gives an empty service name and an empty path, without error. And
  \<open>client:/\<close> parses to the service \<open>client\<close> with the path \<open>/\<close>, an empty instance, no
  method and no error. All of this holds whatever the lower-casing function.
\<close>

theorem parseRoute_no_method:
  "(parseInstance toValue = (i, sub, url) \<longrightarrow>
    parseService (split url CHR '':'') = Inr (svc, api) \<longrightarrow>
    \<not> prefix ''['' api \<longrightarrow>
      parseRoute toLowerCase toValue =
        Inr \<lparr>instance = i, subID = sub, serviceName = svc, httpMethod = None,
             apiRoute = api, error = None\<rparr>)
   \<and> parseSegments toLowerCase i' sub' [] =
        Inr \<lparr>instance = i', subID = sub', serviceName = Some [], httpMethod = None,
             apiRoute = [], error = None\<rparr>
   \<and> parseRoute toLowerCase ''client:/'' =
        Inr \<lparr>instance = Some [], subID = Some [], serviceName = Some ''client'',
             httpMethod = None, apiRoute = ''/'', error = None\<rparr>"
proof (intro conjI impI)
  assume a: "parseInstance toValue = (i, sub, url)"
    and b: "parseService (split url CHR '':'') = Inr (svc, api)"
    and c: "\<not> prefix ''['' api"
  show "parseRoute toLowerCase toValue =
        Inr \<lparr>instance = i, subID = sub, serviceName = svc, httpMethod = None,
             apiRoute = api, error = None\<rparr>"
    using parseSegments_unfold[OF b parseMethod_no_bracket[OF c]] a
    by (simp add: parseRoute_def)
next
  show "parseSegments toLowerCase i' sub' [] =
        Inr \<lparr>instance = i', subID = sub', serviceName = Some [], httpMethod = None,
             apiRoute = [], error = None\<rparr>"
    by (simp add: parseSegments_def parseService_def parseMethod_def js_nth_def shift_def
          Let_def)
next
  have a: "parseInstance ''client:/'' = (Some [], Some [], ''client:/'')" by code_simp
  have b: "parseService (split ''client:/'' CHR '':'') = Inr (Some ''client'', ''/'')"
    by code_simp
  have c: "\<not> prefix ''['' ''/''" by simp
  show "parseRoute toLowerCase ''client:/'' =
        Inr \<lparr>instance = Some [], subID = Some [], serviceName = Some ''client'',
             httpMethod = None, apiRoute = ''/'', error = None\<rparr>"
    using parseSegments_unfold[OF b parseMethod_no_bracket[OF c]] a
    by (simp add: parseRoute_def)
qed

theorem parseRoute_no_method_witness:
  "parseInstance ''a@svc:/v1/x'' = (Some ''a'', None, ''svc:/v1/x'')
   \<and> parseService (split ''svc:/v1/x'' CHR '':'') = Inr (Some ''svc'', ''/v1/x'')
   \<and> \<not> prefix ''['' ''/v1/x''
   \<and> parseRoute toLowerCase_latin1 ''a@svc:/v1/x'' =
        Inr \<lparr>instance = Some ''a'', subID = None, serviceName = Some ''svc'',
             httpMethod = None, apiRoute = ''/v1/x'', error = None\<rparr>"
proof -
  have a: "parseInstance ''a@svc:/v1/x'' = (Some ''a'', None, ''svc:/v1/x'')" by code_simp
  have b: "parseService (split ''svc:/v1/x'' CHR '':'') = Inr (Some ''svc'', ''/v1/x'')"
    by code_simp
  have c: "\<not> prefix ''['' ''/v1/x''" by simp
  show ?thesis
    using a b c
      parseRoute_no_method[of "''a@svc:/v1/x''" "Some ''a''" None "''svc:/v1/x''" "Some ''svc''"
        "''/v1/x''" toLowerCase_latin1]
    by simp
qed

section \<open>Facts about the converters and the proxy\<close>

lemma copy_field_apply:
  "copy_field m src dst c k =
     (if k = dst \<and> truthy (msg_get m src) then Some (msg_get m src) else c k)"
  by (simp add: copy_field_def)

lemma messageToShort_apply:
  "messageToShort m k =
     (if k = ''bdy'' \<and> truthy (msg_get m ''body'') then Some (msg_get m ''body'')
      else if k = ''for'' \<and> truthy (msg_get m ''for'') then Some (msg_get m ''for'')
      else if k = ''via'' \<and> truthy (msg_get m ''via'') then Some (msg_get m ''via'')
      else if k = ''ver'' \<and> truthy (msg_get m ''version'') then Some (msg_get m ''version'')
      else if k = ''ts'' \<and> truthy (msg_get m ''timestamp'') then Some (msg_get m ''timestamp'')
      else if k = ''rmid'' \<and> truthy (msg_get m ''rmid'') then Some (msg_get m ''rmid'')
      else if k = ''mid'' \<and> truthy (msg_get m ''mid'') then Some (msg_get m ''mid'')
      else if k = ''frm'' \<and> truthy (msg_get m ''from'') then Some (msg_get m ''from'')
      else if k = ''to'' \<and> truthy (msg_get m ''to'') then Some (msg_get m ''to'')
      else None)"
  unfolding messageToShort_def Let_def copy_field_apply by simp

lemma messageToLong_apply:
  "messageToLong m k =
     (if k = ''body'' \<and> truthy (msg_get m ''bdy'') then Some (msg_get m ''bdy'')
      else if k = ''for'' \<and> truthy (msg_get m ''for'') then Some (msg_get m ''for'')
      else if k = ''via'' \<and> truthy (msg_get m ''via'') then Some (msg_get m ''via'')
      else if k = ''version'' \<and> truthy (msg_get m ''ver'') then Some (msg_get m ''ver'')
      else if k = ''timestamp'' \<and> truthy (msg_get m ''ts'') then Some (msg_get m ''ts'')
      else if k = ''rmid'' \<and> truthy (msg_get m ''rmid'') then Some (msg_get m ''rmid'')
      else if k = ''mid'' \<and> truthy (msg_get m ''mid'') then Some (msg_get m ''mid'')
      else if k = ''from'' \<and> truthy (msg_get m ''frm'') then Some (msg_get m ''frm'')
      else if k = ''to'' \<and> truthy (msg_get m ''to'') then Some (msg_get m ''to'')
      else None)"
  unfolding messageToLong_def Let_def copy_field_apply by simp

text \<open>What each name reads as on the output of a converter.\<close>

lemma short_reads:
  "msg_get (Plain (messageToShort m)) ''to''
     = (if truthy (msg_get m ''to'') then msg_get m ''to'' else Undefined)"
  "msg_get (Plain (messageToShort m)) ''frm''
     = (if truthy (msg_get m ''from'') then msg_get m ''from'' else Undefined)"
  "msg_get (Plain (messageToShort m)) ''mid''
     = (if truthy (msg_get m ''mid'') then msg_get m ''mid'' else Undefined)"
  "msg_get (Plain (messageToShort m)) ''rmid''
     = (if truthy (msg_get m ''rmid'') then msg_get m ''rmid'' else Undefined)"
  "msg_get (Plain (messageToShort m)) ''ts''
     = (if truthy (msg_get m ''timestamp'') then msg_get m ''timestamp'' else Undefined)"
  "msg_get (Plain (messageToShort m)) ''ver''
     = (if truthy (msg_get m ''version'') then msg_get m ''version'' else Undefined)"
  "msg_get (Plain (messageToShort m)) ''via''
     = (if truthy (msg_get m ''via'') then msg_get m ''via'' else Undefined)"
  "msg_get (Plain (messageToShort m)) ''for''
     = (if truthy (msg_get m ''for'') then msg_get m ''for'' else Undefined)"
  "msg_get (Plain (messageToShort m)) ''bdy''
     = (if truthy (msg_get m ''body'') then msg_get m ''body'' else Undefined)"
  by (simp_all add: obj_get_def messageToShort_apply)

lemma short_reads_long_names:
  "msg_get (Plain (messageToShort m)) ''from'' = Undefined"
  "msg_get (Plain (messageToShort m)) ''timestamp'' = Undefined"
  "msg_get (Plain (messageToShort m)) ''version'' = Undefined"
  "msg_get (Plain (messageToShort m)) ''body'' = Undefined"
  by (simp_all add: obj_get_def messageToShort_apply)

lemma long_reads:
  "msg_get (Plain (messageToLong m)) ''to''
     = (if truthy (msg_get m ''to'') then msg_get m ''to'' else Undefined)"
  "msg_get (Plain (messageToLong m)) ''from''
     = (if truthy (msg_get m ''frm'') then msg_get m ''frm'' else Undefined)"
  "msg_get (Plain (messageToLong m)) ''mid''
     = (if truthy (msg_get m ''mid'') then msg_get m ''mid'' else Undefined)"
  "msg_get (Plain (messageToLong m)) ''rmid''
     = (if truthy (msg_get m ''rmid'') then msg_get m ''rmid'' else Undefined)"
  "msg_get (Plain (messageToLong m)) ''timestamp''
     = (if truthy (msg_get m ''ts'') then msg_get m ''ts'' else Undefined)"
  "msg_get (Plain (messageToLong m)) ''version''
     = (if truthy (msg_get m ''ver'') then msg_get m ''ver'' else Undefined)"
  "msg_get (Plain (messageToLong m)) ''via''
     = (if truthy (msg_get m ''via'') then msg_get m ''via'' else Undefined)"
  "msg_get (Plain (messageToLong m)) ''for''
     = (if truthy (msg_get m ''for'') then msg_get m ''for'' else Undefined)"
  "msg_get (Plain (messageToLong m)) ''body''
     = (if truthy (msg_get m ''bdy'') then msg_get m ''bdy'' else Undefined)"
  by (simp_all add: obj_get_def messageToLong_apply)

lemma kept_chain:
  "(if P \<and> truthy (if truthy v then v else Undefined)
    then Some (if truthy v then v else Undefined) else R)
   = (if P \<and> truthy v then Some v else R)"
  by simp

text \<open>
  Reading through the proxy: a dual-named field asked for by the name of the other form
  is read from the name of the form the message was created in.
\<close>

lemma proxy_read_other_form:
  "msg_get (Proxied True obj) ''from'' = obj_get obj ''frm''"
  "msg_get (Proxied True obj) ''timestamp'' = obj_get obj ''ts''"
  "msg_get (Proxied True obj) ''version'' = obj_get obj ''ver''"
  "msg_get (Proxied True obj) ''body'' = obj_get obj ''bdy''"
  "msg_get (Proxied False obj) ''frm'' = obj_get obj ''from''"
  "msg_get (Proxied False obj) ''ts'' = obj_get obj ''timestamp''"
  "msg_get (Proxied False obj) ''ver'' = obj_get obj ''version''"
  "msg_get (Proxied False obj) ''bdy'' = obj_get obj ''body''"
  by (simp_all add: proxy_get_def js_in_def longToShort_def shortToLong_def to_str_def)






section \<open>Properties of the message functions\<close>

text \<open>
  C2. Writing a dual-named field through the proxy does not store anything: on a
  short-form message, assigning \<open>from\<close> raises a ReferenceError, and so does assigning
  \<open>frm\<close> on a long-form message, because the \<open>set\<close> handler evaluates the undeclared
  identifier \<open>name\<close> where the \<open>get\<close> handler uses its parameter. (Reads do resolve to the
  stored name: \<open>proxy_read_other_form\<close>.)
\<close>

theorem proxy_write_throws:
  "msg_set None (createMessage 
      \<lparr>createMessageID = ''fa1ae8d5-86fc-44af-aad8-cd2740aef041'',
       createShortMessageID = ''2hOwUc5'',
       getTimeStamp = ''2017-01-01T00:00:00.000Z''\<rparr> (Some Map.empty) True) ''from'' (Str ''client:/'')
     = Inl ReferenceError
   \<and> msg_set None (createMessage 
      \<lparr>createMessageID = ''fa1ae8d5-86fc-44af-aad8-cd2740aef041'',
       createShortMessageID = ''2hOwUc5'',
       getTimeStamp = ''2017-01-01T00:00:00.000Z''\<rparr> (Some Map.empty) False) ''frm'' (Str ''client:/'')
     = Inl ReferenceError"
  by (simp add: createMessage_def proxy_set_def)

text \<open>
  C3. \<open>validateMessage\<close> is true exactly when \<open>to\<close> reads truthy, one of \<open>from\<close> and
  \<open>frm\<close> reads truthy, and one of \<open>body\<close> and \<open>bdy\<close> reads truthy. It is a total function
  of the message: reading a property of an object or of the proxy raises nothing.
\<close>

theorem validateMessage_iff:
  "validateMessage m \<longleftrightarrow>
     truthy (msg_get m ''to'')
     \<and> (truthy (msg_get m ''from'') \<or> truthy (msg_get m ''frm''))
     \<and> (truthy (msg_get m ''body'') \<or> truthy (msg_get m ''bdy''))"
  by (auto simp: validateMessage_def)

theorem validateMessage_iff_witness:
  "validateMessage (createMessage 
      \<lparr>createMessageID = ''fa1ae8d5-86fc-44af-aad8-cd2740aef041'',
       createShortMessageID = ''2hOwUc5'',
       getTimeStamp = ''2017-01-01T00:00:00.000Z''\<rparr>
      (Some [''to'' \<mapsto> Str ''service:/'', ''from'' \<mapsto> Str ''client:/'', ''body'' \<mapsto> Ref 0]) False)
   \<and> \<not> validateMessage (createMessage 
      \<lparr>createMessageID = ''fa1ae8d5-86fc-44af-aad8-cd2740aef041'',
       createShortMessageID = ''2hOwUc5'',
       getTimeStamp = ''2017-01-01T00:00:00.000Z''\<rparr> (Some Map.empty) False)
   \<and> \<not> validateMessage (Plain [''to'' \<mapsto> Str ''service:/'', ''frm'' \<mapsto> Str ''client:/'', ''bdy'' \<mapsto> Number 0])"
  using validateMessage_iff[of "createMessage 
      \<lparr>createMessageID = ''fa1ae8d5-86fc-44af-aad8-cd2740aef041'',
       createShortMessageID = ''2hOwUc5'',
       getTimeStamp = ''2017-01-01T00:00:00.000Z''\<rparr>
      (Some [''to'' \<mapsto> Str ''service:/'', ''from'' \<mapsto> Str ''client:/'', ''body'' \<mapsto> Ref 0]) False"]
    validateMessage_iff[of "createMessage 
      \<lparr>createMessageID = ''fa1ae8d5-86fc-44af-aad8-cd2740aef041'',
       createShortMessageID = ''2hOwUc5'',
       getTimeStamp = ''2017-01-01T00:00:00.000Z''\<rparr> (Some Map.empty) False"]
    validateMessage_iff[of "Plain [''to'' \<mapsto> Str ''service:/'', ''frm'' \<mapsto> Str ''client:/'', ''bdy'' \<mapsto> Number 0]"]
  by (simp add: createMessage_def or_empty_def object_assign_def proxy_get_def js_in_def
        shortToLong_def longToShort_def obj_get_def to_str_def)

text \<open>
  C4. Converting to the short form and back gives an object whose fields are exactly the
  nine long names that read truthy in the message, each with the value it had; and
  converting to the long form and back gives exactly the nine short names that read
  truthy, each with its value. Every other name is absent from the result.
\<close>

theorem convert_round_trip:
  "messageToLong (Plain (messageToShort m)) k =
     (if k \<in> {''to'', ''from'', ''mid'', ''rmid'', ''timestamp'', ''version'', ''via'', ''for'', ''body''}
         \<and> truthy (msg_get m k)
      then Some (msg_get m k) else None)
   \<and> messageToShort (Plain (messageToLong m)) k =
     (if k \<in> {''to'', ''frm'', ''mid'', ''rmid'', ''ts'', ''ver'', ''via'', ''for'', ''bdy''}
         \<and> truthy (msg_get m k)
      then Some (msg_get m k) else None)"
proof
  show "messageToLong (Plain (messageToShort m)) k =
     (if k \<in> {''to'', ''from'', ''mid'', ''rmid'', ''timestamp'', ''version'', ''via'', ''for'', ''body''}
         \<and> truthy (msg_get m k)
      then Some (msg_get m k) else None)"
    unfolding messageToLong_apply short_reads kept_chain by auto
next
  show "messageToShort (Plain (messageToLong m)) k =
     (if k \<in> {''to'', ''frm'', ''mid'', ''rmid'', ''ts'', ''ver'', ''via'', ''for'', ''bdy''}
         \<and> truthy (msg_get m k)
      then Some (msg_get m k) else None)"
    unfolding messageToShort_apply long_reads kept_chain by auto
qed

theorem convert_round_trip_witness:
  "messageToLong (Plain (messageToShort (Plain
      [''to'' \<mapsto> Str ''service:/'', ''from'' \<mapsto> Str ''client:/'', ''via'' \<mapsto> Str [], ''body'' \<mapsto> Ref 0])))
      ''from'' = Some (Str ''client:/'')
   \<and> messageToLong (Plain (messageToShort (Plain
      [''to'' \<mapsto> Str ''service:/'', ''from'' \<mapsto> Str ''client:/'', ''via'' \<mapsto> Str [], ''body'' \<mapsto> Ref 0])))
      ''via'' = None
   \<and> messageToShort (Plain (messageToLong (Plain
      [''to'' \<mapsto> Str ''service:/'', ''frm'' \<mapsto> Str ''client:/'', ''bdy'' \<mapsto> Ref 0])))
      ''bdy'' = Some (Ref 0)"
  using
    convert_round_trip[of "Plain [''to'' \<mapsto> Str ''service:/'', ''from'' \<mapsto> Str ''client:/'', ''via'' \<mapsto> Str [], ''body'' \<mapsto> Ref 0]" "''from''"]
    convert_round_trip[of "Plain [''to'' \<mapsto> Str ''service:/'', ''from'' \<mapsto> Str ''client:/'', ''via'' \<mapsto> Str [], ''body'' \<mapsto> Ref 0]" "''via''"]
    convert_round_trip[of "Plain [''to'' \<mapsto> Str ''service:/'', ''frm'' \<mapsto> Str ''client:/'', ''bdy'' \<mapsto> Ref 0]" "''bdy''"]
  by (simp add: obj_get_def)




text \<open>
  C10. On a plain object \<open>messageToShort\<close> reads the long names only: when \<open>from\<close>,
  \<open>timestamp\<close>, \<open>version\<close> or \<open>body\<close> is absent or falsy, the result has no \<open>frm\<close>, \<open>ts\<close>,
  \<open>ver\<close> or \<open>bdy\<close>, whatever the object holds under those short names. So applying
  \<open>messageToShort\<close> to its own output gives an object without these four fields: the
  second application differs from the first on a message with a \<open>from\<close>, and a plain
  short-form message with a \<open>frm\<close> is not returned as it is.
\<close>

theorem messageToShort_reads_long_names:
  "(\<not> truthy (obj_get obj ''from'') \<longrightarrow> messageToShort (Plain obj) ''frm'' = None)
   \<and> (\<not> truthy (obj_get obj ''timestamp'') \<longrightarrow> messageToShort (Plain obj) ''ts'' = None)
   \<and> (\<not> truthy (obj_get obj ''version'') \<longrightarrow> messageToShort (Plain obj) ''ver'' = None)
   \<and> (\<not> truthy (obj_get obj ''body'') \<longrightarrow> messageToShort (Plain obj) ''bdy'' = None)
   \<and> messageToShort (Plain (messageToShort m)) ''frm'' = None
   \<and> messageToShort (Plain (messageToShort m)) ''ts'' = None
   \<and> messageToShort (Plain (messageToShort m)) ''ver'' = None
   \<and> messageToShort (Plain (messageToShort m)) ''bdy'' = None
   \<and> messageToShort (Plain (messageToShort (Plain [''from'' \<mapsto> Str ''client:/''])))
        \<noteq> messageToShort (Plain [''from'' \<mapsto> Str ''client:/''])
   \<and> messageToShort (Plain [''frm'' \<mapsto> Str ''client:/'']) \<noteq> [''frm'' \<mapsto> Str ''client:/'']"
proof (intro conjI)
  show "\<not> truthy (obj_get obj ''from'') \<longrightarrow> messageToShort (Plain obj) ''frm'' = None"
    by (simp add: messageToShort_apply)
  show "\<not> truthy (obj_get obj ''timestamp'') \<longrightarrow> messageToShort (Plain obj) ''ts'' = None"
    by (simp add: messageToShort_apply)
  show "\<not> truthy (obj_get obj ''version'') \<longrightarrow> messageToShort (Plain obj) ''ver'' = None"
    by (simp add: messageToShort_apply)
  show "\<not> truthy (obj_get obj ''body'') \<longrightarrow> messageToShort (Plain obj) ''bdy'' = None"
    by (simp add: messageToShort_apply)
  show "messageToShort (Plain (messageToShort m)) ''frm'' = None"
    unfolding messageToShort_apply[of "Plain (messageToShort m)"] short_reads_long_names by simp
  show "messageToShort (Plain (messageToShort m)) ''ts'' = None"
    unfolding messageToShort_apply[of "Plain (messageToShort m)"] short_reads_long_names by simp
  show "messageToShort (Plain (messageToShort m)) ''ver'' = None"
    unfolding messageToShort_apply[of "Plain (messageToShort m)"] short_reads_long_names by simp
  show "messageToShort (Plain (messageToShort m)) ''bdy'' = None"
    unfolding messageToShort_apply[of "Plain (messageToShort m)"] short_reads_long_names by simp
  have a: "messageToShort (Plain [''from'' \<mapsto> Str ''client:/'']) ''frm'' = Some (Str ''client:/'')"
    by (simp add: messageToShort_apply obj_get_def)
  have b: "messageToShort (Plain (messageToShort (Plain [''from'' \<mapsto> Str ''client:/''])))
             ''frm'' = None"
    unfolding messageToShort_apply[of "Plain (messageToShort _)"] short_reads_long_names by simp
  show "messageToShort (Plain (messageToShort (Plain [''from'' \<mapsto> Str ''client:/''])))
        \<noteq> messageToShort (Plain [''from'' \<mapsto> Str ''client:/''])"
    using a b by (metis option.distinct(1))
  have c: "messageToShort (Plain [''frm'' \<mapsto> Str ''client:/'']) ''frm'' = None"
    by (simp add: messageToShort_apply obj_get_def)
  show "messageToShort (Plain [''frm'' \<mapsto> Str ''client:/'']) \<noteq> [''frm'' \<mapsto> Str ''client:/'']"
  proof
    assume "messageToShort (Plain [''frm'' \<mapsto> Str ''client:/'']) = [''frm'' \<mapsto> Str ''client:/'']"
    then have "messageToShort (Plain [''frm'' \<mapsto> Str ''client:/'']) ''frm''
                 = Some (Str ''client:/'')"
      by simp
    with c show False by simp
  qed
qed

theorem messageToShort_reads_long_names_witness:
  "\<not> truthy (obj_get
      [''frm'' \<mapsto> Str ''client:/'', ''ts'' \<mapsto> Str ''t'', ''ver'' \<mapsto> Str ''v'', ''bdy'' \<mapsto> Ref 0, ''body'' \<mapsto> Str []] ''from'')
   \<and> \<not> truthy (obj_get
      [''frm'' \<mapsto> Str ''client:/'', ''ts'' \<mapsto> Str ''t'', ''ver'' \<mapsto> Str ''v'', ''bdy'' \<mapsto> Ref 0, ''body'' \<mapsto> Str []] ''timestamp'')
   \<and> \<not> truthy (obj_get
      [''frm'' \<mapsto> Str ''client:/'', ''ts'' \<mapsto> Str ''t'', ''ver'' \<mapsto> Str ''v'', ''bdy'' \<mapsto> Ref 0, ''body'' \<mapsto> Str []] ''version'')
   \<and> \<not> truthy (obj_get
      [''frm'' \<mapsto> Str ''client:/'', ''ts'' \<mapsto> Str ''t'', ''ver'' \<mapsto> Str ''v'', ''bdy'' \<mapsto> Ref 0, ''body'' \<mapsto> Str []] ''body'')
   \<and> messageToShort (Plain
      [''frm'' \<mapsto> Str ''client:/'', ''ts'' \<mapsto> Str ''t'', ''ver'' \<mapsto> Str ''v'', ''bdy'' \<mapsto> Ref 0, ''body'' \<mapsto> Str []]) ''frm'' = None
   \<and> messageToShort (Plain
      [''frm'' \<mapsto> Str ''client:/'', ''ts'' \<mapsto> Str ''t'', ''ver'' \<mapsto> Str ''v'', ''bdy'' \<mapsto> Ref 0, ''body'' \<mapsto> Str []]) ''ts'' = None
   \<and> messageToShort (Plain
      [''frm'' \<mapsto> Str ''client:/'', ''ts'' \<mapsto> Str ''t'', ''ver'' \<mapsto> Str ''v'', ''bdy'' \<mapsto> Ref 0, ''body'' \<mapsto> Str []]) ''ver'' = None
   \<and> messageToShort (Plain
      [''frm'' \<mapsto> Str ''client:/'', ''ts'' \<mapsto> Str ''t'', ''ver'' \<mapsto> Str ''v'', ''bdy'' \<mapsto> Ref 0, ''body'' \<mapsto> Str []]) ''bdy'' = None"
  using messageToShort_reads_long_names[of "[''frm'' \<mapsto> Str ''client:/'', ''ts'' \<mapsto> Str ''t'', ''ver'' \<mapsto> Str ''v'', ''bdy'' \<mapsto> Ref 0, ''body'' \<mapsto> Str []]"]
  by (simp add: obj_get_def)

end
